theory Spec2Isabelle
  imports Complex_Main
begin

section \<open>Conventions of the embedding\<close>

text \<open>
  The development embeds the Python modules \<^verbatim>\<open>eeg_simulator\<close>, \<^verbatim>\<open>signal_processor\<close>,
  \<^verbatim>\<open>mental_state_classifier\<close>, \<^verbatim>\<open>recommendation_engine\<close> and the streaming loop and
  mode handler of \<^verbatim>\<open>app.py\<close>.

  \<^item> Python \<^verbatim>\<open>int\<close> is \<open>int\<close>; a Python \<^verbatim>\<open>float\<close> is a real number (NaN and the
    infinities are not modelled).
  \<^item> The arithmetic of the classifier, whose results are compared with thresholds and
    truncated to integers, is rounded: every \<^verbatim>\<open>+\<close>, \<^verbatim>\<open>-\<close>, \<^verbatim>\<open>*\<close>, \<^verbatim>\<open>/\<close> of the source is the
    exact operation followed by the rounding \<open>fl\<close> of the float arithmetic, which is an
    argument of the classifier's functions. CPython computes with \<open>fl = binary64\<close>; the
    theorems about the classifier hold for every \<open>fl\<close>. Comparisons, \<^verbatim>\<open>min\<close>, \<^verbatim>\<open>max\<close> and
    the literals of the source are exact. The simulator, the mean of a window and the
    ratios are kept in exact arithmetic.
  \<^item> A \<^verbatim>\<open>dict\<close> with string keys is a map \<open>string \<rightharpoonup> 'v\<close>; reading a key that is absent
    raises \<^verbatim>\<open>KeyError\<close>, which is the value \<open>Inl KeyError\<close> of the result.
  \<^item> Mutable attributes and module globals are fields of a record that is passed in and
    returned updated.
  \<^item> The random draws of the simulator and the clock are inputs of the functions that
    use them.
  \<^item> Titles and descriptions of the catalogue are Turkish texts with emoji; the theory
    keeps them as ASCII transliterations without the emoji. No property below reads them.
  \<^item> Python names that start with an underscore lose it.
\<close>

datatype py_error = KeyError

text \<open>\<^verbatim>\<open>int(x)\<close> on a float truncates towards zero.\<close>

definition py_int :: "real \<Rightarrow> int" where
  "py_int x = (if 0 \<le> x then \<lfloor>x\<rfloor> else \<lceil>x\<rceil>)"

text \<open>\<^verbatim>\<open>xs[-n:]\<close> for a positive literal \<open>n\<close>: the last \<open>n\<close> elements, or all of \<open>xs\<close>
  when it is shorter.\<close>

definition py_last_n :: "nat \<Rightarrow> 'a list \<Rightarrow> 'a list" where
  "py_last_n n xs = (if n = 0 then xs else drop (length xs - n) xs)"

text \<open>
  Rounding to the nearest integer, ties to the even one, and rounding of a real number
  to the nearest IEEE 754 double: 53 significant bits, ties to even, the exponent not
  below -1022 (subnormal numbers). Overflow to infinity is not modelled.
\<close>

definition round_half_even :: "real \<Rightarrow> int" where
  "round_half_even x =
     (let n = \<lfloor>x\<rfloor>; r = x - of_int n in
      if r < 1 / 2 then n else if 1 / 2 < r then n + 1 else if even n then n else n + 1)"

definition binary64 :: "real \<Rightarrow> real" where
  "binary64 x =
     (if x = 0 then 0
      else let e = max \<lfloor>log 2 \<bar>x\<bar>\<rfloor> (- 1022);
               u = 2 powr (of_int e - 52)
           in of_int (round_half_even (x / u)) * u)"

section \<open>mental_state_classifier.py: the MentalState dataclass\<close>

record MentalState =
  stress_level :: int
  focus_level :: int
  sleepiness_level :: int
  confidence :: real

section \<open>recommendation_engine.py\<close>

datatype RecommendationType = BINAURAL_BEATS | MEDITATION | BREAK | BREATHING

record Recommendation =
  rtype :: RecommendationType
  frequency_hz :: "real option"
  duration_minutes :: int
  title :: string
  description :: string
  priority :: int

record RecommendationEngine =
  high_stress_threshold :: int
  low_focus_threshold :: int
  high_sleepiness_threshold :: int

definition RecommendationEngine_init :: RecommendationEngine where
  "RecommendationEngine_init =
     \<lparr>high_stress_threshold = 60, low_focus_threshold = 40, high_sleepiness_threshold = 70\<rparr>"

definition stress_binaural :: Recommendation where
  "stress_binaural =
     \<lparr>rtype = BINAURAL_BEATS, frequency_hz = Some 10, duration_minutes = 10,
      title = ''Alpha Dalgasi - Stres Azaltici'',
      description = ''10 Hz Alpha dalgasi ile derin rahatlamayi destekler. Kulaklikla dinlemeniz onerilir.'',
      priority = 1\<rparr>"

definition stress_breathing :: Recommendation where
  "stress_breathing =
     \<lparr>rtype = BREATHING, frequency_hz = None, duration_minutes = 5,
      title = ''4-7-8 Nefes Teknigi'',
      description = ''4 saniye burnunuzdan nefes alin, 7 saniye tutun, 8 saniye agzinizdan verin. 4 kez tekrarlayin.'',
      priority = 1\<rparr>"

definition stress_meditation :: Recommendation where
  "stress_meditation =
     \<lparr>rtype = MEDITATION, frequency_hz = None, duration_minutes = 10,
      title = ''Beden Tarama Meditasyonu'',
      description = ''Vucudunuzdaki her bolgeyi sirayla tarayin ve gevsetin.'',
      priority = 2\<rparr>"

definition stress_recommendations :: "Recommendation list" where
  "stress_recommendations = [stress_binaural, stress_breathing, stress_meditation]"

definition focus_binaural :: Recommendation where
  "focus_binaural =
     \<lparr>rtype = BINAURAL_BEATS, frequency_hz = Some 20, duration_minutes = 15,
      title = ''Beta Dalgasi - Konsantrasyon Artirici'',
      description = ''20 Hz Beta dalgasi ile odaklanmayi destekler. Calisma sirasinda arka planda calabilir.'',
      priority = 1\<rparr>"

definition focus_break :: Recommendation where
  "focus_break =
     \<lparr>rtype = BREAK, frequency_hz = None, duration_minutes = 5,
      title = ''Kisa Mola'',
      description = ''5 dakika ayaga kalkin, gerinin, su icin. Pomodoro teknigi: 25 dk calis, 5 dk mola.'',
      priority = 2\<rparr>"

definition focus_recommendations :: "Recommendation list" where
  "focus_recommendations = [focus_binaural, focus_break]"

definition sleepiness_break :: Recommendation where
  "sleepiness_break =
     \<lparr>rtype = BREAK, frequency_hz = None, duration_minutes = 10,
      title = ''Enerji Molasi'',
      description = ''Kisa yuruyus veya hafif germe hareketleri. Disari cikip gunes isigi almaniz faydali olacaktir.'',
      priority = 1\<rparr>"

definition sleepiness_binaural :: Recommendation where
  "sleepiness_binaural =
     \<lparr>rtype = BINAURAL_BEATS, frequency_hz = Some 15, duration_minutes = 10,
      title = ''Uyaniklik Artirici'',
      description = ''15 Hz ile uyanikligi destekler.'',
      priority = 2\<rparr>"

definition sleepiness_breathing :: Recommendation where
  "sleepiness_breathing =
     \<lparr>rtype = BREATHING, frequency_hz = None, duration_minutes = 3,
      title = ''Hizli Enerji Nefesi'',
      description = ''Hizli ve derin nefes alip verme (Bellows Breath). 30 saniye hizli nefes, 30 saniye normal nefes.'',
      priority = 2\<rparr>"

definition sleepiness_recommendations :: "Recommendation list" where
  "sleepiness_recommendations = [sleepiness_break, sleepiness_binaural, sleepiness_breathing]"

definition maintenance_meditation :: Recommendation where
  "maintenance_meditation =
     \<lparr>rtype = MEDITATION, frequency_hz = None, duration_minutes = 5,
      title = ''Mindfulness Ani'',
      description = ''Kisa bir farkindalik egzersizi ile zihninizi tazeleyin.'',
      priority = 3\<rparr>"

definition maintenance_recommendations :: "Recommendation list" where
  "maintenance_recommendations = [maintenance_meditation]"

text \<open>The list that \<^verbatim>\<open>generate\<close> has built, rule after rule, before it sorts.\<close>

definition collected :: "RecommendationEngine \<Rightarrow> MentalState \<Rightarrow> Recommendation list" where
  "collected eng mental_state =
     (if stress_level mental_state > high_stress_threshold eng
        then stress_recommendations else [])
   @ (if focus_level mental_state < low_focus_threshold eng
        then focus_recommendations else [])
   @ (if sleepiness_level mental_state > high_sleepiness_threshold eng
        then sleepiness_recommendations else [])
   @ (if low_focus_threshold eng \<le> focus_level mental_state
          \<and> focus_level mental_state \<le> 70
          \<and> stress_level mental_state < high_stress_threshold eng
          \<and> sleepiness_level mental_state < high_sleepiness_threshold eng
        then maintenance_recommendations else [])"

text \<open>\<^verbatim>\<open>list.sort(key=...)\<close> is a stable sort; \<open>sort_key\<close> is the stable insertion sort.\<close>

definition generate :: "RecommendationEngine \<Rightarrow> MentalState \<Rightarrow> Recommendation list" where
  "generate eng mental_state = sort_key priority (collected eng mental_state)"

section \<open>eeg_simulator.py\<close>

datatype MentalStateMode = RELAXED | FOCUSED | STRESSED | SLEEPY

text \<open>The \<^verbatim>\<open>value\<close> of each member of the enum.\<close>

fun mode_value :: "MentalStateMode \<Rightarrow> string" where
  "mode_value RELAXED = ''relaxed''"
| "mode_value FOCUSED = ''focused''"
| "mode_value STRESSED = ''stressed''"
| "mode_value SLEEPY = ''sleepy''"

text \<open>
  Python does not check the annotation of \<^verbatim>\<open>mode\<close>: \<^verbatim>\<open>generate_sample\<close> compares its
  argument with the four members and has an \<^verbatim>\<open>else\<close> branch for anything else.
  \<open>Unrecognized\<close> stands for every argument that is not a member.
\<close>

datatype mode_arg = Known MentalStateMode | Unrecognized

record EEGSample =
  timestamp :: real
  delta :: real
  theta :: real
  alpha :: real
  beta :: real
  gamma :: real

record EEGSimulator =
  sampling_rate :: int
  time :: real
  sim_current_mode :: MentalStateMode

definition EEGSimulator_init :: "int \<Rightarrow> EEGSimulator" where
  "EEGSimulator_init rate = \<lparr>sampling_rate = rate, time = 0, sim_current_mode = RELAXED\<rparr>"

text \<open>The five base values plus noise, in the order delta, theta, alpha, beta, gamma.\<close>

fun profile :: "mode_arg \<Rightarrow> real \<Rightarrow> real \<times> real \<times> real \<times> real \<times> real" where
  "profile (Known RELAXED) noise = (5 + noise, 8 + noise, 15 + noise, 5 + noise, 2 + noise)"
| "profile (Known FOCUSED) noise = (3 + noise, 5 + noise, 7 + noise, 18 + noise, 8 + noise)"
| "profile (Known STRESSED) noise = (4 + noise, 6 + noise, 4 + noise, 20 + noise, 12 + noise)"
| "profile (Known SLEEPY) noise = (12 + noise, 10 + noise, 6 + noise, 3 + noise, 1 + noise)"
| "profile Unrecognized noise = (5 + noise, 5 + noise, 5 + noise, 5 + noise, 5 + noise)"

text \<open>\<open>randn\<close> is the value that \<^verbatim>\<open>np.random.randn()\<close> returns in this call.\<close>

definition generate_sample :: "EEGSimulator \<Rightarrow> mode_arg \<Rightarrow> real \<Rightarrow> EEGSample" where
  "generate_sample sim mode randn =
     (let noise = randn * 0.5 in
      case profile mode noise of (d, t, a, b, g) \<Rightarrow>
        \<lparr>timestamp = time sim,
         delta = max 0.1 d, theta = max 0.1 t, alpha = max 0.1 a,
         beta = max 0.1 b, gamma = max 0.1 g\<rparr>)"

text \<open>
  The body of the \<^verbatim>\<open>for\<close> loop of \<^verbatim>\<open>stream_samples\<close>, run \<open>n\<close> times and collected into
  a list as \<^verbatim>\<open>list(...)\<close> does; \<open>rnd i\<close> is the draw of the \<open>i\<close>-th sample. The division
  by \<^verbatim>\<open>sampling_rate\<close> is only reached with a positive count, hence a non-zero rate.
\<close>

fun stream_loop ::
  "nat \<Rightarrow> nat \<Rightarrow> (nat \<Rightarrow> real) \<Rightarrow> mode_arg \<Rightarrow> EEGSimulator \<Rightarrow> EEGSample list \<times> EEGSimulator" where
  "stream_loop 0 i rnd mode sim = ([], sim)"
| "stream_loop (Suc n) i rnd mode sim =
     (let s = generate_sample sim mode (rnd i);
          sim' = sim\<lparr>time := time sim + 1 / real_of_int (sampling_rate sim)\<rparr>
      in case stream_loop n (Suc i) rnd mode sim' of
           (rest, sim'') \<Rightarrow> (s # rest, sim''))"

definition stream_samples ::
  "EEGSimulator \<Rightarrow> mode_arg \<Rightarrow> real \<Rightarrow> (nat \<Rightarrow> real) \<Rightarrow> EEGSample list \<times> EEGSimulator" where
  "stream_samples sim mode duration_seconds rnd =
     (let samples_count = py_int (real_of_int (sampling_rate sim) * duration_seconds)
      in stream_loop (nat samples_count) 0 rnd mode sim)"

definition set_mode :: "EEGSimulator \<Rightarrow> MentalStateMode \<Rightarrow> EEGSimulator" where
  "set_mode sim mode = sim\<lparr>sim_current_mode := mode\<rparr>"

definition reset_time :: "EEGSimulator \<Rightarrow> EEGSimulator" where
  "reset_time sim = sim\<lparr>time := 0\<rparr>"

section \<open>signal_processor.py\<close>

type_synonym band_powers = "string \<rightharpoonup> real"

record SignalProcessor =
  proc_sampling_rate :: int
  window_size :: int

definition SignalProcessor_init :: "int \<Rightarrow> real \<Rightarrow> SignalProcessor" where
  "SignalProcessor_init rate window_size_seconds =
     \<lparr>proc_sampling_rate = rate, window_size = py_int (real_of_int rate * window_size_seconds)\<rparr>"

text \<open>\<^verbatim>\<open>np.mean\<close> of a non-empty list.\<close>

definition mean :: "real list \<Rightarrow> real" where
  "mean xs = sum_list xs / real (length xs)"

definition empty_result :: band_powers where
  "empty_result =
     [''delta_power'' \<mapsto> 0, ''theta_power'' \<mapsto> 0, ''alpha_power'' \<mapsto> 0,
      ''beta_power'' \<mapsto> 0, ''gamma_power'' \<mapsto> 0, ''timestamp'' \<mapsto> 0]"

definition analyze_eeg_window :: "SignalProcessor \<Rightarrow> EEGSample list \<Rightarrow> band_powers" where
  "analyze_eeg_window self samples =
     (if samples = [] then empty_result
      else [''delta_power'' \<mapsto> mean (map delta samples),
            ''theta_power'' \<mapsto> mean (map theta samples),
            ''alpha_power'' \<mapsto> mean (map alpha samples),
            ''beta_power'' \<mapsto> mean (map beta samples),
            ''gamma_power'' \<mapsto> mean (map gamma samples),
            ''timestamp'' \<mapsto> timestamp (last samples)])"

text \<open>
  The five reads of \<^verbatim>\<open>band_powers[...]\<close>; any absent key raises \<^verbatim>\<open>KeyError\<close>. The
  result is the tuple (delta, theta, alpha, beta, gamma).
\<close>

definition read_bands :: "band_powers \<Rightarrow> py_error + (real \<times> real \<times> real \<times> real \<times> real)" where
  "read_bands bp =
     (case (bp ''delta_power'', bp ''theta_power'', bp ''alpha_power'',
            bp ''beta_power'', bp ''gamma_power'') of
        (Some d, Some t, Some a, Some b, Some g) \<Rightarrow> Inr (d, t, a, b, g)
      | _ \<Rightarrow> Inl KeyError)"

definition calculate_ratios :: "band_powers \<Rightarrow> py_error + (string \<rightharpoonup> real)" where
  "calculate_ratios bp =
     (case read_bands bp of
        Inl e \<Rightarrow> Inl e
      | Inr (d, t, a, b, g) \<Rightarrow>
          (let total_power = d + t + a + b + g in
           if total_power = 0
           then Inr [''beta_alpha_ratio'' \<mapsto> 0, ''theta_beta_ratio'' \<mapsto> 0]
           else
             (let alpha' = max a 0.1; beta' = max b 0.1 in
              Inr [''beta_alpha_ratio'' \<mapsto> beta' / alpha',
                   ''theta_beta_ratio'' \<mapsto> t / beta',
                   ''total_power'' \<mapsto> total_power])))"

section \<open>mental_state_classifier.py\<close>

record MentalStateClassifier =
  stress_beta_threshold :: real
  stress_alpha_threshold :: real
  focus_beta_min :: real
  sleepy_delta_threshold :: real

definition MentalStateClassifier_init :: MentalStateClassifier where
  "MentalStateClassifier_init =
     \<lparr>stress_beta_threshold = 15, stress_alpha_threshold = 8,
      focus_beta_min = 12, sleepy_delta_threshold = 10\<rparr>"

text \<open>
  \<^verbatim>\<open>delta + theta + alpha + beta + gamma\<close>, added from the left, and
  \<^verbatim>\<open>(x / total_power) * 100\<close>, each operation rounded.
\<close>

definition band_total ::
  "(real \<Rightarrow> real) \<Rightarrow> real \<Rightarrow> real \<Rightarrow> real \<Rightarrow> real \<Rightarrow> real \<Rightarrow> real" where
  "band_total fl d t a b g = fl (fl (fl (fl (d + t) + a) + b) + g)"

definition percentage :: "(real \<Rightarrow> real) \<Rightarrow> real \<Rightarrow> real \<Rightarrow> real" where
  "percentage fl x total_power = fl (fl (x / total_power) * 100)"

definition calculate_stress :: "(real \<Rightarrow> real) \<Rightarrow> real \<Rightarrow> real \<Rightarrow> real \<Rightarrow> int" where
  "calculate_stress fl beta_pct alpha_pct gamma_pct =
     (let stress_from_beta = min 100 (fl (beta_pct * 3));
          stress_from_alpha = max 0 (fl (50 - fl (alpha_pct * 2)));
          stress_from_gamma = min 30 (fl (gamma_pct * 2));
          total_stress =
            fl (fl (fl (stress_from_beta + stress_from_alpha) + stress_from_gamma) / 2.5)
      in py_int (min 100 (max 0 total_stress)))"

definition calculate_focus :: "(real \<Rightarrow> real) \<Rightarrow> real \<Rightarrow> real \<Rightarrow> real \<Rightarrow> int" where
  "calculate_focus fl beta_pct gamma_pct alpha_pct =
     (let focus_from_beta =
            (if 20 \<le> beta_pct \<and> beta_pct \<le> 35 then 60
             else if beta_pct > 35 then min 100 (fl (beta_pct * 2))
             else fl (beta_pct * 2));
          focus_from_gamma = min 40 (fl (gamma_pct * 3));
          alpha_penalty = max 0 (fl (fl (alpha_pct - 30) * 0.5));
          total_focus = fl (fl (focus_from_beta + focus_from_gamma) - alpha_penalty)
      in py_int (min 100 (max 0 total_focus)))"

definition calculate_sleepiness :: "(real \<Rightarrow> real) \<Rightarrow> real \<Rightarrow> real \<Rightarrow> real \<Rightarrow> int" where
  "calculate_sleepiness fl delta_pct theta_pct beta_pct =
     (let sleepy_from_slow = fl (fl (fl (delta_pct * 2) + fl (theta_pct * 1.5)) / 2);
          beta_penalty = max 0 (fl (30 - beta_pct));
          total_sleepiness = fl (sleepy_from_slow + beta_penalty)
      in py_int (min 100 (max 0 total_sleepiness)))"

definition calculate_confidence :: "real \<Rightarrow> real" where
  "calculate_confidence total_power =
     (if total_power > 30 then 0.9
      else if total_power > 20 then 0.7
      else if total_power > 10 then 0.5
      else 0.3)"

definition classify :: "(real \<Rightarrow> real) \<Rightarrow> band_powers \<Rightarrow> py_error + MentalState" where
  "classify fl bp =
     (case read_bands bp of
        Inl e \<Rightarrow> Inl e
      | Inr (d, t, a, b, g) \<Rightarrow>
          (let total_power = band_total fl d t a b g in
           if total_power < 1.0
           then Inr \<lparr>stress_level = 0, focus_level = 0, sleepiness_level = 0, confidence = 0.0\<rparr>
           else
             (let delta_pct = percentage fl d total_power;
                  theta_pct = percentage fl t total_power;
                  alpha_pct = percentage fl a total_power;
                  beta_pct = percentage fl b total_power;
                  gamma_pct = percentage fl g total_power;
                  stress = calculate_stress fl beta_pct alpha_pct gamma_pct;
                  focus = calculate_focus fl beta_pct gamma_pct alpha_pct;
                  sleepiness = calculate_sleepiness fl delta_pct theta_pct beta_pct;
                  conf = calculate_confidence total_power
              in Inr \<lparr>stress_level = stress, focus_level = focus,
                      sleepiness_level = sleepiness, confidence = conf\<rparr>)))"

section \<open>app.py\<close>

text \<open>
  The packet of one analysed window. The source renders the mental state and each
  recommendation as a dict with the same contents; \<open>dp_timestamp\<close> is
  \<^verbatim>\<open>datetime.now().isoformat()\<close>.
\<close>

record data_packet =
  dp_timestamp :: string
  dp_band_powers :: band_powers
  dp_mental_state :: MentalState
  dp_recommendations :: "Recommendation list"
  dp_current_mode :: string

text \<open>The module globals.\<close>

record app_state =
  simulator :: EEGSimulator
  processor :: SignalProcessor
  engine :: RecommendationEngine
  eeg_buffer :: "EEGSample list"
  session_data :: "data_packet list"
  current_mode :: MentalStateMode
  is_streaming :: bool

definition app_init :: app_state where
  "app_init =
     \<lparr>simulator = EEGSimulator_init 256,
      processor = SignalProcessor_init 256 2.0,
      engine = RecommendationEngine_init,
      eeg_buffer = [],
      session_data = [],
      current_mode = RELAXED,
      is_streaming = False\<rparr>"

text \<open>
  One iteration of the \<^verbatim>\<open>while True\<close> loop of \<^verbatim>\<open>background_eeg_stream\<close>. \<open>fl\<close> is the
  rounding of the classifier's arithmetic, \<open>rnd\<close> gives the random draws of the
  iteration and \<open>now\<close> the clock reading. The second component is
  the packet handed to \<^verbatim>\<open>socketio.emit\<close>, if any; the library calls are taken to return.
  An exception inside the \<^verbatim>\<open>try\<close> leaves the globals as they were when it was raised:
  the buffer extended, nothing appended, nothing trimmed.
\<close>

definition stream_iteration ::
  "(real \<Rightarrow> real) \<Rightarrow> (nat \<Rightarrow> real) \<Rightarrow> string \<Rightarrow> app_state
     \<Rightarrow> app_state \<times> data_packet option" where
  "stream_iteration fl rnd now s =
     (if \<not> is_streaming s then (s, None)
      else
        case stream_samples (simulator s) (Known (current_mode s)) 0.25 rnd of
          (samples, sim') \<Rightarrow>
            (let s1 = s\<lparr>simulator := sim', eeg_buffer := eeg_buffer s @ samples\<rparr> in
             if length (eeg_buffer s1) \<ge> 512 then
               (let window_samples = py_last_n 512 (eeg_buffer s1);
                    band_powers = analyze_eeg_window (processor s1) window_samples
                in case classify fl band_powers of
                     Inl e \<Rightarrow> (s1, None)
                   | Inr mental_state \<Rightarrow>
                       (let recommendations = generate (engine s1) mental_state;
                            packet = \<lparr>dp_timestamp = now,
                                      dp_band_powers = band_powers,
                                      dp_mental_state = mental_state,
                                      dp_recommendations = recommendations,
                                      dp_current_mode = mode_value (current_mode s1)\<rparr>
                        in (s1\<lparr>session_data := session_data s1 @ [packet],
                               eeg_buffer := py_last_n 256 (eeg_buffer s1)\<rparr>,
                            Some packet)))
             else (s1, None)))"

text \<open>The condition of the loop on the buffer: a window of 512 samples is there.\<close>

definition window_ready :: "EEGSample list \<Rightarrow> bool" where
  "window_ready buf \<longleftrightarrow> length buf \<ge> 512"

text \<open>What a handler sends back: the event name, its payload, and the broadcast flag.\<close>

record emission =
  event :: string
  payload :: "string \<rightharpoonup> string"
  broadcast :: bool

definition mode_map :: "string \<rightharpoonup> MentalStateMode" where
  "mode_map =
     [''relaxed'' \<mapsto> RELAXED, ''focused'' \<mapsto> FOCUSED,
      ''stressed'' \<mapsto> STRESSED, ''sleepy'' \<mapsto> SLEEPY]"

definition handle_mode_change :: "(string \<rightharpoonup> string) \<Rightarrow> app_state \<Rightarrow> app_state \<times> emission" where
  "handle_mode_change data s =
     (let mode_str = (case data ''mode'' of None \<Rightarrow> ''relaxed'' | Some m \<Rightarrow> m) in
      case mode_map mode_str of
        Some m \<Rightarrow>
          (s\<lparr>current_mode := m\<rparr>,
           \<lparr>event = ''mode_changed'',
            payload = [''mode'' \<mapsto> mode_value m,
                       ''message'' \<mapsto> ''Mod '' @ mode_value m @ '' olarak degistirildi''],
            broadcast = True\<rparr>)
      | None \<Rightarrow>
          (s, \<lparr>event = ''error'', payload = [''message'' \<mapsto> ''Gecersiz mod''],
               broadcast = False\<rparr>))"

section \<open>The focus formula as the specification words it\<close>




section \<open>Auxiliary facts\<close>

lemma priority_simps:
  "priority stress_binaural = 1" "priority stress_breathing = 1"
  "priority stress_meditation = 2" "priority focus_binaural = 1" "priority focus_break = 2"
  "priority sleepiness_break = 1" "priority sleepiness_binaural = 2"
  "priority sleepiness_breathing = 2" "priority maintenance_meditation = 3"
  by (simp_all add: stress_binaural_def stress_breathing_def stress_meditation_def
      focus_binaural_def focus_break_def sleepiness_break_def sleepiness_binaural_def
      sleepiness_breathing_def maintenance_meditation_def)

lemmas catalogue_defs = stress_recommendations_def focus_recommendations_def
  sleepiness_recommendations_def maintenance_recommendations_def

lemma read_bands_Some:
  assumes "bp ''delta_power'' = Some d" and "bp ''theta_power'' = Some t"
    and "bp ''alpha_power'' = Some a" and "bp ''beta_power'' = Some b"
    and "bp ''gamma_power'' = Some g"
  shows "read_bands bp = Inr (d, t, a, b, g)"
  using assms by (simp add: read_bands_def)

lemma py_int_clamp: "0 \<le> py_int (min 100 (max 0 x)) \<and> py_int (min 100 (max 0 x)) \<le> 100"
proof -
  let ?y = "min 100 (max 0 x)"
  have "0 \<le> ?y" and "?y \<le> 100" by auto
  then show ?thesis unfolding py_int_def by (simp add: floor_le_iff le_floor_iff)
qed

lemma calculate_stress_range:
  "0 \<le> calculate_stress fl b a g \<and> calculate_stress fl b a g \<le> 100"
  unfolding calculate_stress_def Let_def by (rule py_int_clamp)

lemma calculate_focus_range:
  "0 \<le> calculate_focus fl b g a \<and> calculate_focus fl b g a \<le> 100"
  unfolding calculate_focus_def Let_def by (rule py_int_clamp)

lemma calculate_sleepiness_range:
  "0 \<le> calculate_sleepiness fl d t b \<and> calculate_sleepiness fl d t b \<le> 100"
  unfolding calculate_sleepiness_def Let_def by (rule py_int_clamp)

lemma calculate_confidence_steps: "calculate_confidence p \<in> {0.3, 0.5, 0.7, 0.9}"
  by (simp add: calculate_confidence_def)




lemma mode_map_unknown:
  "name \<notin> {''relaxed'', ''focused'', ''stressed'', ''sleepy''} \<Longrightarrow> mode_map name = None"
  by (simp add: mode_map_def)

lemma mode_map_value: "mode_map (mode_value m) = Some m"
  by (cases m) (simp_all add: mode_map_def)

lemma read_bands_analyze: "\<exists>x. read_bands (analyze_eeg_window p w) = Inr x"
  by (simp add: analyze_eeg_window_def empty_result_def read_bands_def)

lemma classify_returns: "read_bands bp = Inr x \<Longrightarrow> \<exists>ms. classify fl bp = Inr ms"
  by (cases x) (simp add: classify_def Let_def)

lemma classify_analyze: "\<exists>ms. classify fl (analyze_eeg_window p w) = Inr ms"
  using read_bands_analyze classify_returns by blast

lemma length_stream_loop: "length (fst (stream_loop n i rnd mode sim)) = n"
proof (induction n arbitrary: i sim)
  case 0
  show ?case by simp
next
  case (Suc n)
  let ?sim = "sim\<lparr>time := time sim + 1 / real_of_int (sampling_rate sim)\<rparr>"
  obtain rest sim2 where r: "stream_loop n (Suc i) rnd mode ?sim = (rest, sim2)"
    by (cases "stream_loop n (Suc i) rnd mode ?sim") auto
  from Suc[of "Suc i" ?sim] r have "length rest = n" by simp
  with r show ?case by (simp add: Let_def)
qed

lemma length_stream_samples_256:
  "sampling_rate sim = 256 \<Longrightarrow> length (fst (stream_samples sim mode 0.25 rnd)) = 64"
  by (simp add: stream_samples_def Let_def length_stream_loop py_int_def)

lemma length_py_last_n:
  "0 < n \<Longrightarrow> n \<le> length xs \<Longrightarrow> length (py_last_n n xs) = n"
  by (simp add: py_last_n_def)

section \<open>The classifier in binary64 arithmetic\<close>

lemma binary64_zero: "binary64 0 = 0"
  by (simp add: binary64_def)

text \<open>The rounding of a number whose binary exponent is known.\<close>

lemma binary64_at:
  assumes "2 powr (of_int e) \<le> \<bar>x\<bar>" and "\<bar>x\<bar> < 2 powr (of_int e + 1)" and "- 1022 \<le> e"
  shows "binary64 x
     = of_int (round_half_even (x / 2 powr (of_int e - 52))) * 2 powr (of_int e - 52)"
proof -
  have "0 < 2 powr (of_int e :: real)" by simp
  with assms(1) have pos: "0 < \<bar>x\<bar>" by linarith
  then have nz: "x \<noteq> 0" by auto
  from assms(1,2) pos have "\<lfloor>log 2 \<bar>x\<bar>\<rfloor> = e"
    by (subst floor_log_eq_powr_iff) (simp_all add: add.commute)
  with assms(3) nz show ?thesis
    by (simp add: binary64_def Let_def max_def)
qed

lemmas b64_simps = powr_minus powr_numeral round_half_even_def Let_def

text \<open>
  The roundings that the classifier performs on the inputs evaluated below: on the left
  the exact result of an operation, on the right the double that stores it.
\<close>

lemma b64_1: "binary64 (- (2052421705181867 / 17592186044416)) = - (2052421705181867 / 17592186044416)"
  by (subst binary64_at[where e = "6"]) (simp_all add: b64_simps)

lemma b64_2: "binary64 (- 50) = - 50"
  by (subst binary64_at[where e = "5"]) (simp_all add: b64_simps)

lemma b64_3: "binary64 (- 30) = - 30"
  by (subst binary64_at[where e = "4"]) (simp_all add: b64_simps)

lemma b64_4: "binary64 (- 29) = - 29"
  by (subst binary64_at[where e = "4"]) (simp_all add: b64_simps)

lemma b64_5: "binary64 (- 15) = - 15"
  by (subst binary64_at[where e = "3"]) (simp_all add: b64_simps)

lemma b64_6: "binary64 (- (29 / 2)) = - (29 / 2)"
  by (subst binary64_at[where e = "3"]) (simp_all add: b64_simps)

lemma b64_7: "binary64 (- 4) = - 4"
  by (subst binary64_at[where e = "2"]) (simp_all add: b64_simps)

lemma b64_8: "binary64 (1 / 18014398509481984) = 1 / 18014398509481984"
  by (subst binary64_at[where e = "- 54"]) (simp_all add: b64_simps)

lemma b64_9: "binary64 (25 / 4503599627370496) = 25 / 4503599627370496"
  by (subst binary64_at[where e = "- 48"]) (simp_all add: b64_simps)

lemma b64_10: "binary64 (75 / 9007199254740992) = 75 / 9007199254740992"
  by (subst binary64_at[where e = "- 47"]) (simp_all add: b64_simps)

lemma b64_11: "binary64 (1 / 100) = 5764607523034235 / 576460752303423488"
  by (subst binary64_at[where e = "- 7"]) (simp_all add: b64_simps)

lemma b64_12: "binary64 (1 / 25) = 5764607523034235 / 144115188075855872"
  by (subst binary64_at[where e = "- 5"]) (simp_all add: b64_simps)

lemma b64_13: "binary64 (1 / 12) = 6004799503160661 / 72057594037927936"
  by (subst binary64_at[where e = "- 4"]) (simp_all add: b64_simps)

lemma b64_14: "binary64 (1 / 8) = 1 / 8"
  by (subst binary64_at[where e = "- 3"]) (simp_all add: b64_simps)

lemma b64_15: "binary64 (1 / 4) = 1 / 4"
  by (subst binary64_at[where e = "- 2"]) (simp_all add: b64_simps)

lemma b64_16: "binary64 (17 / 50) = 6124895493223875 / 18014398509481984"
  by (subst binary64_at[where e = "- 2"]) (simp_all add: b64_simps)

lemma b64_17: "binary64 (1 / 2) = 1 / 2"
  by (subst binary64_at[where e = "- 1"]) (simp_all add: b64_simps)

lemma b64_18: "binary64 (3 / 5) = 5404319552844595 / 9007199254740992"
  by (subst binary64_at[where e = "- 1"]) (simp_all add: b64_simps)

lemma b64_19: "binary64 (5 / 8) = 5 / 8"
  by (subst binary64_at[where e = "- 1"]) (simp_all add: b64_simps)

lemma b64_20: "binary64 (3 / 4) = 3 / 4"
  by (subst binary64_at[where e = "- 1"]) (simp_all add: b64_simps)

lemma b64_21: "binary64 (5 / 6) = 7505999378950827 / 9007199254740992"
  by (subst binary64_at[where e = "- 1"]) (simp_all add: b64_simps)

lemma b64_22: "binary64 (9007199254740991 / 9007199254740992) = 9007199254740991 / 9007199254740992"
  by (subst binary64_at[where e = "- 1"]) (simp_all add: b64_simps)

lemma b64_23: "binary64 (18014398509481983 / 18014398509481984) = 1"
  by (subst binary64_at[where e = "- 1"]) (simp_all add: b64_simps)

lemma b64_24: "binary64 (1) = 1"
  by (subst binary64_at[where e = "0"]) (simp_all add: b64_simps)

lemma b64_25: "binary64 (144115188075855875 / 144115188075855872) = 1"
  by (subst binary64_at[where e = "0"]) (simp_all add: b64_simps)

lemma b64_26: "binary64 (2) = 2"
  by (subst binary64_at[where e = "1"]) (simp_all add: b64_simps)

lemma b64_27: "binary64 (3) = 3"
  by (subst binary64_at[where e = "1"]) (simp_all add: b64_simps)

lemma b64_28: "binary64 (144115188075855875 / 36028797018963968) = 4"
  by (subst binary64_at[where e = "2"]) (simp_all add: b64_simps)

lemma b64_29: "binary64 (8) = 8"
  by (subst binary64_at[where e = "3"]) (simp_all add: b64_simps)

lemma b64_30: "binary64 (150119987579016525 / 18014398509481984) = 2345624805922133 / 281474976710656"
  by (subst binary64_at[where e = "3"]) (simp_all add: b64_simps)

lemma b64_31: "binary64 (10) = 10"
  by (subst binary64_at[where e = "3"]) (simp_all add: b64_simps)

lemma b64_32: "binary64 (11) = 11"
  by (subst binary64_at[where e = "3"]) (simp_all add: b64_simps)

lemma b64_33: "binary64 (12) = 12"
  by (subst binary64_at[where e = "3"]) (simp_all add: b64_simps)

lemma b64_34: "binary64 (25 / 2) = 25 / 2"
  by (subst binary64_at[where e = "3"]) (simp_all add: b64_simps)

lemma b64_35: "binary64 (1055531162664959 / 70368744177664) = 1055531162664959 / 70368744177664"
  by (subst binary64_at[where e = "3"]) (simp_all add: b64_simps)

lemma b64_36: "binary64 (16) = 16"
  by (subst binary64_at[where e = "4"]) (simp_all add: b64_simps)

lemma b64_37: "binary64 (1466015503701333 / 87960930222080) = 2345624805922133 / 140737488355328"
  by (subst binary64_at[where e = "4"]) (simp_all add: b64_simps)

lemma b64_38: "binary64 (2345624805922133 / 140737488355328) = 2345624805922133 / 140737488355328"
  by (subst binary64_at[where e = "4"]) (simp_all add: b64_simps)

lemma b64_39: "binary64 (35 / 2) = 35 / 2"
  by (subst binary64_at[where e = "4"]) (simp_all add: b64_simps)

lemma b64_40: "binary64 (75 / 4) = 75 / 4"
  by (subst binary64_at[where e = "4"]) (simp_all add: b64_simps)

lemma b64_41: "binary64 (20) = 20"
  by (subst binary64_at[where e = "4"]) (simp_all add: b64_simps)

lemma b64_42: "binary64 (6098624495397547 / 281474976710656) = 6098624495397547 / 281474976710656"
  by (subst binary64_at[where e = "4"]) (simp_all add: b64_simps)

lemma b64_43: "binary64 (175 / 8) = 175 / 8"
  by (subst binary64_at[where e = "4"]) (simp_all add: b64_simps)

lemma b64_44: "binary64 (7036874417766399 / 281474976710656) = 7036874417766399 / 281474976710656"
  by (subst binary64_at[where e = "4"]) (simp_all add: b64_simps)

lemma b64_45: "binary64 (25) = 25"
  by (subst binary64_at[where e = "4"]) (simp_all add: b64_simps)

lemma b64_46: "binary64 (1876499844737707 / 70368744177664) = 1876499844737707 / 70368744177664"
  by (subst binary64_at[where e = "4"]) (simp_all add: b64_simps)

lemma b64_47: "binary64 (30) = 30"
  by (subst binary64_at[where e = "4"]) (simp_all add: b64_simps)

lemma b64_48: "binary64 (153122387330596875 / 4503599627370496) = 34"
  by (subst binary64_at[where e = "5"]) (simp_all add: b64_simps)

lemma b64_49: "binary64 (75 / 2) = 75 / 2"
  by (subst binary64_at[where e = "5"]) (simp_all add: b64_simps)

lemma b64_50: "binary64 (315 / 8) = 315 / 8"
  by (subst binary64_at[where e = "5"]) (simp_all add: b64_simps)

lemma b64_51: "binary64 (11728124029610665 / 281474976710656) = 1466015503701333 / 35184372088832"
  by (subst binary64_at[where e = "5"]) (simp_all add: b64_simps)

lemma b64_52: "binary64 (175 / 4) = 175 / 4"
  by (subst binary64_at[where e = "5"]) (simp_all add: b64_simps)

lemma b64_53: "binary64 (48) = 48"
  by (subst binary64_at[where e = "5"]) (simp_all add: b64_simps)

lemma b64_54: "binary64 (49) = 49"
  by (subst binary64_at[where e = "5"]) (simp_all add: b64_simps)

lemma b64_55: "binary64 (50) = 50"
  by (subst binary64_at[where e = "5"]) (simp_all add: b64_simps)

lemma b64_56: "binary64 (105 / 2) = 105 / 2"
  by (subst binary64_at[where e = "5"]) (simp_all add: b64_simps)

lemma b64_57: "binary64 (1876499844737707 / 35184372088832) = 1876499844737707 / 35184372088832"
  by (subst binary64_at[where e = "5"]) (simp_all add: b64_simps)

lemma b64_58: "binary64 (56) = 56"
  by (subst binary64_at[where e = "5"]) (simp_all add: b64_simps)

lemma b64_59: "binary64 (135107988821114875 / 2251799813685248) = 60"
  by (subst binary64_at[where e = "5"]) (simp_all add: b64_simps)

lemma b64_60: "binary64 (60) = 60"
  by (subst binary64_at[where e = "5"]) (simp_all add: b64_simps)

lemma b64_61: "binary64 (125 / 2) = 125 / 2"
  by (subst binary64_at[where e = "5"]) (simp_all add: b64_simps)

lemma b64_62: "binary64 (63) = 63"
  by (subst binary64_at[where e = "5"]) (simp_all add: b64_simps)

lemma b64_63: "binary64 (64) = 64"
  by (subst binary64_at[where e = "6"]) (simp_all add: b64_simps)

lemma b64_64: "binary64 (65) = 65"
  by (subst binary64_at[where e = "6"]) (simp_all add: b64_simps)

lemma b64_65: "binary64 (187649984473770675 / 2251799813685248) = 2932031007402667 / 35184372088832"
  by (subst binary64_at[where e = "6"]) (simp_all add: b64_simps)

lemma b64_66: "binary64 (90) = 90"
  by (subst binary64_at[where e = "6"]) (simp_all add: b64_simps)

lemma b64_67: "binary64 (98) = 98"
  by (subst binary64_at[where e = "6"]) (simp_all add: b64_simps)

lemma b64_68: "binary64 (99) = 99"
  by (subst binary64_at[where e = "6"]) (simp_all add: b64_simps)

lemma b64_69: "binary64 (7036874417766399 / 70368744177664) = 7036874417766399 / 70368744177664"
  by (subst binary64_at[where e = "6"]) (simp_all add: b64_simps)

lemma b64_70: "binary64 (225179981368524775 / 2251799813685248) = 7036874417766399 / 70368744177664"
  by (subst binary64_at[where e = "6"]) (simp_all add: b64_simps)

lemma b64_71: "binary64 (100) = 100"
  by (subst binary64_at[where e = "6"]) (simp_all add: b64_simps)

lemma b64_72: "binary64 (102) = 102"
  by (subst binary64_at[where e = "6"]) (simp_all add: b64_simps)

lemma b64_73: "binary64 (9147936743096319 / 70368744177664) = 130"
  by (subst binary64_at[where e = "7"]) (simp_all add: b64_simps)

lemma b64_74: "binary64 (148) = 148"
  by (subst binary64_at[where e = "7"]) (simp_all add: b64_simps)

lemma b64_75: "binary64 (150) = 150"
  by (subst binary64_at[where e = "7"]) (simp_all add: b64_simps)

lemma b64_76: "binary64 (2932031007402667 / 17592186044416) = 2932031007402667 / 17592186044416"
  by (subst binary64_at[where e = "7"]) (simp_all add: b64_simps)

lemma b64_77: "binary64 (7036874417766399 / 35184372088832) = 7036874417766399 / 35184372088832"
  by (subst binary64_at[where e = "7"]) (simp_all add: b64_simps)

lemma b64_78: "binary64 (1801439850948198219 / 9007199254740992) = 7036874417766399 / 35184372088832"
  by (subst binary64_at[where e = "7"]) (simp_all add: b64_simps)

lemmas binary64_values =
  b64_1 b64_2 b64_3 b64_4 b64_5 b64_6 b64_7 b64_8 b64_9 b64_10
  b64_11 b64_12 b64_13 b64_14 b64_15 b64_16 b64_17 b64_18 b64_19 b64_20
  b64_21 b64_22 b64_23 b64_24 b64_25 b64_26 b64_27 b64_28 b64_29 b64_30
  b64_31 b64_32 b64_33 b64_34 b64_35 b64_36 b64_37 b64_38 b64_39 b64_40
  b64_41 b64_42 b64_43 b64_44 b64_45 b64_46 b64_47 b64_48 b64_49 b64_50
  b64_51 b64_52 b64_53 b64_54 b64_55 b64_56 b64_57 b64_58 b64_59 b64_60
  b64_61 b64_62 b64_63 b64_64 b64_65 b64_66 b64_67 b64_68 b64_69 b64_70
  b64_71 b64_72 b64_73 b64_74 b64_75 b64_76 b64_77 b64_78

lemmas classify_defs = classify_def read_bands_def Let_def band_total_def percentage_def
  calculate_stress_def calculate_focus_def calculate_sleepiness_def calculate_confidence_def
  py_int_def binary64_zero

text \<open>
  Where rounding decides. For delta 0, theta 0, alpha 10, beta 1, gamma 1 the focus sum
  is 15 in exact arithmetic and 14.999999999999986 in doubles: the program returns
  focus 14.
\<close>

lemma classify_binary64_truncates_below:
  "classify binary64 [''delta_power'' \<mapsto> 0, ''theta_power'' \<mapsto> 0, ''alpha_power'' \<mapsto> 10,
                      ''beta_power'' \<mapsto> 1, ''gamma_power'' \<mapsto> 1, ''timestamp'' \<mapsto> 2]
     = Inr \<lparr>stress_level = 16, focus_level = 14, sleepiness_level = 21, confidence = 0.5\<rparr>"
  by (simp add: classify_defs binary64_values)

lemma classify_exact_differs:
  "classify (\<lambda>x. x) [''delta_power'' \<mapsto> 0, ''theta_power'' \<mapsto> 0, ''alpha_power'' \<mapsto> 10,
                      ''beta_power'' \<mapsto> 1, ''gamma_power'' \<mapsto> 1, ''timestamp'' \<mapsto> 2]
     = Inr \<lparr>stress_level = 16, focus_level = 15, sleepiness_level = 21, confidence = 0.5\<rparr>"
  by (simp add: classify_defs)

text \<open>
  The doubles \<open>1 - 2^-53\<close> and \<open>2^-54\<close> have an exact sum below 1 and the float sum 1.0:
  the program does not take the low-signal return.
\<close>

lemma classify_binary64_rounded_total:
  "(1 - 1 / 2 ^ 53) + 1 / 2 ^ 54 + 0 + 0 + 0 < (1 :: real)
   \<and> band_total binary64 (1 - 1 / 2 ^ 53) (1 / 2 ^ 54) 0 0 0 = 1
   \<and> classify binary64 [''delta_power'' \<mapsto> 1 - 1 / 2 ^ 53, ''theta_power'' \<mapsto> 1 / 2 ^ 54,
                        ''alpha_power'' \<mapsto> 0, ''beta_power'' \<mapsto> 0, ''gamma_power'' \<mapsto> 0,
                        ''timestamp'' \<mapsto> 2]
     = Inr \<lparr>stress_level = 20, focus_level = 0, sleepiness_level = 100, confidence = 0.3\<rparr>"
  by (simp add: classify_defs binary64_values)

section \<open>The recommendation engine\<close>

text \<open>
  Claim C1. The claim asks that every state with focus in [40,70], stress at most 60 and
  sleepiness at most 70 gets the maintenance recommendation, also at stress 60 and at
  sleepiness 70. The code compares with \<open><\<close>: for the band powers delta 4, theta 60,
  alpha 1, beta 34, gamma 1 the classifier, in binary64 arithmetic, returns stress 60,
  focus 63, sleepiness 49, and for that state \<^verbatim>\<open>generate\<close> returns the empty list; so it
  does for stress 35, focus 60, sleepiness 70.
\<close>

theorem generate_skips_maintenance_at_thresholds:
  "classify binary64 [''delta_power'' \<mapsto> 4, ''theta_power'' \<mapsto> 60, ''alpha_power'' \<mapsto> 1,
             ''beta_power'' \<mapsto> 34, ''gamma_power'' \<mapsto> 1, ''timestamp'' \<mapsto> 2]
     = Inr \<lparr>stress_level = 60, focus_level = 63, sleepiness_level = 49, confidence = 0.9\<rparr>
   \<and> generate RecommendationEngine_init
        \<lparr>stress_level = 60, focus_level = 63, sleepiness_level = 49, confidence = 0.9\<rparr> = []
   \<and> generate RecommendationEngine_init
        \<lparr>stress_level = 35, focus_level = 60, sleepiness_level = 70, confidence = 0.8\<rparr> = []"
proof -
  have "classify binary64
          [''delta_power'' \<mapsto> 4, ''theta_power'' \<mapsto> 60, ''alpha_power'' \<mapsto> 1,
           ''beta_power'' \<mapsto> 34, ''gamma_power'' \<mapsto> 1, ''timestamp'' \<mapsto> 2]
     = Inr \<lparr>stress_level = 60, focus_level = 63, sleepiness_level = 49, confidence = 0.9\<rparr>"
    by (simp add: classify_defs binary64_values)
  then show ?thesis
    by (simp add: generate_def collected_def RecommendationEngine_init_def)
qed

text \<open>
  Claim C6. The list that \<^verbatim>\<open>generate\<close> returns is sorted by priority, non-decreasing;
  for every priority, the recommendations of that priority stand in the order in which
  the rules collected them (stress, focus, sleepiness, maintenance, each in catalogue
  order); and when the stress level exceeds 60 the first two entries are the 10 Hz
  binaural beats and the breathing exercise, both of priority 1.
\<close>

theorem generate_sorted_stable:
  "sorted (map priority (generate RecommendationEngine_init ms))
   \<and> (\<forall>k. filter (\<lambda>r. priority r = k) (generate RecommendationEngine_init ms)
          = filter (\<lambda>r. priority r = k) (collected RecommendationEngine_init ms))
   \<and> (60 < stress_level ms \<longrightarrow>
        take 2 (generate RecommendationEngine_init ms) = [stress_binaural, stress_breathing]
        \<and> priority stress_binaural = 1 \<and> priority stress_breathing = 1
        \<and> rtype stress_binaural = BINAURAL_BEATS \<and> frequency_hz stress_binaural = Some 10
        \<and> rtype stress_breathing = BREATHING)"
proof (intro conjI allI impI)
  show "sorted (map priority (generate RecommendationEngine_init ms))"
    by (simp add: generate_def)
  show "filter (\<lambda>r. priority r = k) (generate RecommendationEngine_init ms)
          = filter (\<lambda>r. priority r = k) (collected RecommendationEngine_init ms)" for k
    unfolding generate_def by (rule sort_key_stable)
  show "take 2 (generate RecommendationEngine_init ms) = [stress_binaural, stress_breathing]"
    if "60 < stress_level ms"
    using that
    by (simp add: generate_def collected_def RecommendationEngine_init_def catalogue_defs
        priority_simps)
qed (simp_all add: priority_simps, simp_all add: stress_binaural_def stress_breathing_def)

theorem generate_sorted_stable_witness:
  "60 < stress_level \<lparr>stress_level = 85, focus_level = 25, sleepiness_level = 80, confidence = 0.8\<rparr>
   \<and> take 2 (generate RecommendationEngine_init
        \<lparr>stress_level = 85, focus_level = 25, sleepiness_level = 80, confidence = 0.8\<rparr>)
       = [stress_binaural, stress_breathing]
   \<and> sorted (map priority (generate RecommendationEngine_init
        \<lparr>stress_level = 85, focus_level = 25, sleepiness_level = 80, confidence = 0.8\<rparr>))"
  using generate_sorted_stable
    [of "\<lparr>stress_level = 85, focus_level = 25, sleepiness_level = 80, confidence = 0.8\<rparr>"]
  by simp

text \<open>
  Claim C10. When the focus level is above 70 while the stress level is at most 60 and
  the sleepiness level at most 70, no rule fires and \<^verbatim>\<open>generate\<close> returns the empty
  list; stress 0, focus 80, sleepiness 0 is such a state with all levels in [0,100].
\<close>

theorem generate_empty_when_focus_high:
  "(70 < focus_level ms \<and> 40 \<le> focus_level ms \<and> stress_level ms \<le> 60
      \<and> sleepiness_level ms \<le> 70
     \<longrightarrow> collected RecommendationEngine_init ms = []
         \<and> generate RecommendationEngine_init ms = [])
   \<and> (\<exists>st. stress_level st \<in> {0..100} \<and> focus_level st \<in> {0..100}
          \<and> sleepiness_level st \<in> {0..100}
          \<and> st = \<lparr>stress_level = 0, focus_level = 80, sleepiness_level = 0, confidence = 0.9\<rparr>
          \<and> generate RecommendationEngine_init st = [])"
  by (simp add: generate_def collected_def RecommendationEngine_init_def)

theorem generate_empty_when_focus_high_witness:
  "70 < focus_level \<lparr>stress_level = 60, focus_level = 71, sleepiness_level = 70, confidence = 0.5\<rparr>
   \<and> 40 \<le> focus_level \<lparr>stress_level = 60, focus_level = 71, sleepiness_level = 70, confidence = 0.5\<rparr>
   \<and> stress_level \<lparr>stress_level = 60, focus_level = 71, sleepiness_level = 70, confidence = 0.5\<rparr> \<le> 60
   \<and> sleepiness_level \<lparr>stress_level = 60, focus_level = 71, sleepiness_level = 70, confidence = 0.5\<rparr> \<le> 70
   \<and> generate RecommendationEngine_init
        \<lparr>stress_level = 60, focus_level = 71, sleepiness_level = 70, confidence = 0.5\<rparr> = []"
  using generate_empty_when_focus_high
    [of "\<lparr>stress_level = 60, focus_level = 71, sleepiness_level = 70, confidence = 0.5\<rparr>"]
  by simp

section \<open>The signal processor\<close>

text \<open>
  Claim C2. The claim asks that the result of \<^verbatim>\<open>calculate_ratios\<close> contains
  \<^verbatim>\<open>total_power\<close> for every input. For the band powers of an empty window, all zero, the
  code returns the two ratios as 0 and no \<^verbatim>\<open>total_power\<close> entry; for band powers with a
  non-zero sum the result has the three entries the claim describes.
\<close>

theorem calculate_ratios_zero_total_has_no_total_power:
  "calculate_ratios (analyze_eeg_window (SignalProcessor_init 256 2.0) [])
     = Inr [''beta_alpha_ratio'' \<mapsto> 0, ''theta_beta_ratio'' \<mapsto> 0]
   \<and> [''beta_alpha_ratio'' \<mapsto> 0::real, ''theta_beta_ratio'' \<mapsto> 0] ''total_power'' = None
   \<and> calculate_ratios [''delta_power'' \<mapsto> 4, ''theta_power'' \<mapsto> 6, ''alpha_power'' \<mapsto> 4,
                        ''beta_power'' \<mapsto> 20, ''gamma_power'' \<mapsto> 12, ''timestamp'' \<mapsto> 2]
     = Inr [''beta_alpha_ratio'' \<mapsto> 5, ''theta_beta_ratio'' \<mapsto> 3 / 10, ''total_power'' \<mapsto> 46]"
  by (simp add: calculate_ratios_def analyze_eeg_window_def empty_result_def read_bands_def)

section \<open>The classifier\<close>

text \<open>
  Claim C3. For every band-powers mapping that holds the five band powers, whatever
  their values, \<^verbatim>\<open>classify\<close> returns a mental state whose stress, focus and sleepiness
  levels are integers in [0,100] and whose confidence is one of 0.0, 0.3, 0.5, 0.7, 0.9;
  this whatever the rounding of the arithmetic.
\<close>

theorem classify_levels_in_range:
  assumes "bp ''delta_power'' = Some d" and "bp ''theta_power'' = Some t"
    and "bp ''alpha_power'' = Some a" and "bp ''beta_power'' = Some b"
    and "bp ''gamma_power'' = Some g"
  shows "\<exists>ms. classify fl bp = Inr ms
      \<and> 0 \<le> stress_level ms \<and> stress_level ms \<le> 100
      \<and> 0 \<le> focus_level ms \<and> focus_level ms \<le> 100
      \<and> 0 \<le> sleepiness_level ms \<and> sleepiness_level ms \<le> 100
      \<and> confidence ms \<in> {0.0, 0.3, 0.5, 0.7, 0.9}"
proof (cases "band_total fl d t a b g < 1")
  case True
  then show ?thesis
    by (simp add: classify_def read_bands_Some[OF assms])
next
  case False
  then show ?thesis
    using calculate_stress_range calculate_focus_range calculate_sleepiness_range
      calculate_confidence_steps
    by (simp add: classify_def read_bands_Some[OF assms] Let_def)
qed

theorem classify_levels_in_range_witness:
  "[''delta_power'' \<mapsto> -1000, ''theta_power'' \<mapsto> 1 / 1024, ''alpha_power'' \<mapsto> 0,
    ''beta_power'' \<mapsto> 10 ^ 9, ''gamma_power'' \<mapsto> 7, ''timestamp'' \<mapsto> 2] ''delta_power''
     = Some (-1000 :: real)
   \<and> (\<exists>ms. classify binary64
              [''delta_power'' \<mapsto> -1000, ''theta_power'' \<mapsto> 1 / 1024,
               ''alpha_power'' \<mapsto> 0, ''beta_power'' \<mapsto> 10 ^ 9,
               ''gamma_power'' \<mapsto> 7, ''timestamp'' \<mapsto> 2] = Inr ms
        \<and> 0 \<le> stress_level ms \<and> stress_level ms \<le> 100
        \<and> 0 \<le> focus_level ms \<and> focus_level ms \<le> 100
        \<and> 0 \<le> sleepiness_level ms \<and> sleepiness_level ms \<le> 100
        \<and> confidence ms \<in> {0.0, 0.3, 0.5, 0.7, 0.9})"
proof -
  let ?bp = "[''delta_power'' \<mapsto> -1000, ''theta_power'' \<mapsto> 1 / 1024, ''alpha_power'' \<mapsto> 0,
    ''beta_power'' \<mapsto> 10 ^ 9, ''gamma_power'' \<mapsto> 7, ''timestamp'' \<mapsto> 2] :: band_powers"
  have k: "?bp ''delta_power'' = Some (-1000)" "?bp ''theta_power'' = Some (1 / 1024)"
    "?bp ''alpha_power'' = Some 0" "?bp ''beta_power'' = Some (10 ^ 9)"
    "?bp ''gamma_power'' = Some 7"
    by simp_all
  from classify_levels_in_range[OF k, of binary64] k(1) show ?thesis by blast
qed





section \<open>The simulator\<close>

text \<open>
  Claim C9. For every mode, the fallback for an unrecognized mode included, and every
  value of the noise draw, each of the five band powers of the generated sample is at
  least 0.1.
\<close>

theorem generate_sample_floor:
  "0.1 \<le> delta (generate_sample sim mode randn)
   \<and> 0.1 \<le> theta (generate_sample sim mode randn)
   \<and> 0.1 \<le> alpha (generate_sample sim mode randn)
   \<and> 0.1 \<le> beta (generate_sample sim mode randn)
   \<and> 0.1 \<le> gamma (generate_sample sim mode randn)"
proof -
  obtain d t a b g where p: "profile mode (randn * 0.5) = (d, t, a, b, g)"
    by (cases "profile mode (randn * 0.5)") auto
  have fl: "\<And>x::real. 0.1 \<le> max 0.1 x" by (rule max.cobounded1)
  show ?thesis
    unfolding generate_sample_def Let_def p by (simp only: prod.case EEGSample.simps fl)
qed

section \<open>The streaming loop and the mode handler\<close>

text \<open>
  Claim C7. In an iteration of the streaming loop in which the buffer, once the new
  samples are appended, holds at least 512 samples, a window is analysed and a packet is
  emitted; afterwards the buffer is exactly the most recent 256 samples, so the ready
  condition is false, and it stays false however fewer than 256 further samples are
  appended.
\<close>

theorem stream_iteration_retains_hop:
  assumes "is_streaming s"
    and "window_ready
           (eeg_buffer s @ fst (stream_samples (simulator s) (Known (current_mode s)) 0.25 rnd))"
  shows "snd (stream_iteration fl rnd now s) \<noteq> None
    \<and> eeg_buffer (fst (stream_iteration fl rnd now s))
        = py_last_n 256
            (eeg_buffer s @ fst (stream_samples (simulator s) (Known (current_mode s)) 0.25 rnd))
    \<and> length (eeg_buffer (fst (stream_iteration fl rnd now s))) = 256
    \<and> \<not> window_ready (eeg_buffer (fst (stream_iteration fl rnd now s)))
    \<and> (\<forall>pushed. length pushed < 256 \<longrightarrow>
          \<not> window_ready (eeg_buffer (fst (stream_iteration fl rnd now s)) @ pushed))"
proof -
  obtain samples sim'
    where ss: "stream_samples (simulator s) (Known (current_mode s)) 0.25 rnd = (samples, sim')"
    by (cases "stream_samples (simulator s) (Known (current_mode s)) 0.25 rnd") auto
  let ?buf = "eeg_buffer s @ samples"
  from assms(2) ss have ready: "512 \<le> length ?buf"
    by (simp add: window_ready_def)
  obtain ms
    where ms: "classify fl (analyze_eeg_window (processor s) (py_last_n 512 ?buf)) = Inr ms"
    using classify_analyze by blast
  have it: "eeg_buffer (fst (stream_iteration fl rnd now s)) = py_last_n 256 ?buf"
    "snd (stream_iteration fl rnd now s) \<noteq> None"
    unfolding stream_iteration_def ss
    using assms(1) ready ms by (simp_all add: Let_def)
  have len: "length (py_last_n 256 ?buf) = 256"
    using ready by (intro length_py_last_n) simp_all
  show ?thesis
    unfolding ss using it len by (simp add: window_ready_def)
qed

theorem stream_iteration_retains_hop_witness:
  "is_streaming (app_init\<lparr>eeg_buffer := replicate 448 (generate_sample (EEGSimulator_init 256) (Known STRESSED) 0), is_streaming := True\<rparr>)
   \<and> window_ready
       (eeg_buffer (app_init\<lparr>eeg_buffer := replicate 448 (generate_sample (EEGSimulator_init 256) (Known STRESSED) 0), is_streaming := True\<rparr>)
        @ fst (stream_samples
                 (simulator (app_init\<lparr>eeg_buffer := replicate 448 (generate_sample (EEGSimulator_init 256) (Known STRESSED) 0), is_streaming := True\<rparr>))
                 (Known (current_mode (app_init\<lparr>eeg_buffer := replicate 448 (generate_sample (EEGSimulator_init 256) (Known STRESSED) 0), is_streaming := True\<rparr>)))
                 0.25 (\<lambda>i. 0)))
   \<and> length (eeg_buffer (fst (stream_iteration binary64 (\<lambda>i. 0) []
        (app_init\<lparr>eeg_buffer := replicate 448 (generate_sample (EEGSimulator_init 256) (Known STRESSED) 0), is_streaming := True\<rparr>)))) = 256
   \<and> \<not> window_ready (eeg_buffer (fst (stream_iteration binary64 (\<lambda>i. 0) []
        (app_init\<lparr>eeg_buffer := replicate 448 (generate_sample (EEGSimulator_init 256) (Known STRESSED) 0), is_streaming := True\<rparr>))))"
proof -
  let ?s = "app_init\<lparr>eeg_buffer := replicate 448 (generate_sample (EEGSimulator_init 256) (Known STRESSED) 0), is_streaming := True\<rparr>"
  have a: "is_streaming ?s" by simp
  have "sampling_rate (simulator ?s) = 256"
    by (simp add: app_init_def EEGSimulator_init_def)
  then have "length (fst (stream_samples (simulator ?s) (Known (current_mode ?s)) 0.25 (\<lambda>i. 0))) = 64"
    by (rule length_stream_samples_256)
  then have b: "window_ready
      (eeg_buffer ?s @ fst (stream_samples (simulator ?s) (Known (current_mode ?s)) 0.25 (\<lambda>i. 0)))"
    by (simp add: window_ready_def)
  from stream_iteration_retains_hop[OF a b, of binary64 "[]"] a b show ?thesis by blast
qed

text \<open>
  Claim C8. A mode name outside relaxed, focused, stressed, sleepy makes the handler
  send the \<^verbatim>\<open>error\<close> event to the caller alone and leaves every global, the active mode
  and the streaming flag among them, as it was; the name of a mode makes that mode the
  active one.
\<close>

theorem handle_mode_change_rejects_unknown:
  "(data ''mode'' = Some name \<and> name \<notin> {''relaxed'', ''focused'', ''stressed'', ''sleepy''}
     \<longrightarrow> fst (handle_mode_change data s) = s
         \<and> current_mode (fst (handle_mode_change data s)) = current_mode s
         \<and> is_streaming (fst (handle_mode_change data s)) = is_streaming s
         \<and> event (snd (handle_mode_change data s)) = ''error''
         \<and> broadcast (snd (handle_mode_change data s)) = False)
   \<and> (data' ''mode'' = Some (mode_value m)
     \<longrightarrow> current_mode (fst (handle_mode_change data' s)) = m
         \<and> is_streaming (fst (handle_mode_change data' s)) = is_streaming s
         \<and> event (snd (handle_mode_change data' s)) = ''mode_changed'')"
  by (simp add: handle_mode_change_def mode_map_unknown mode_map_value)

theorem handle_mode_change_rejects_unknown_witness:
  "[''mode'' \<mapsto> ''invalid''] ''mode'' = Some ''invalid''
   \<and> ''invalid'' \<notin> {''relaxed'', ''focused'', ''stressed'', ''sleepy''}
   \<and> fst (handle_mode_change [''mode'' \<mapsto> ''invalid''] (app_init\<lparr>is_streaming := True\<rparr>))
       = app_init\<lparr>is_streaming := True\<rparr>
   \<and> event (snd (handle_mode_change [''mode'' \<mapsto> ''invalid''] (app_init\<lparr>is_streaming := True\<rparr>)))
       = ''error''
   \<and> [''mode'' \<mapsto> ''stressed''] ''mode'' = Some (mode_value STRESSED)
   \<and> current_mode (fst (handle_mode_change [''mode'' \<mapsto> ''stressed'']
        (app_init\<lparr>is_streaming := True\<rparr>))) = STRESSED"
  using handle_mode_change_rejects_unknown
    [of "[''mode'' \<mapsto> ''invalid'']" "''invalid''" "app_init\<lparr>is_streaming := True\<rparr>"
        "[''mode'' \<mapsto> ''stressed'']" STRESSED]
  by simp

end
